theory Spec2Isabelle
  imports Complex_Main "HOL-Library.Word" "HOL-Library.Sublist" "HOL-Library.Log_Nat"
begin

section \<open>The two-owner account adapter (account-api.ts)\<close>

text \<open>
  A shallow embedding of the class \<open>TwoOwnerAccountAPI\<close>. The class is a thin layer over
  three collaborators that it imports: the ethers library (wallets, the ABI coder, the
  byte utilities), the base class \<open>AccountApiType\<close> (authorization hash, phantom
  detection, the generic operation builder) and the chain (contract reads). Collaborators
  whose results are computed elsewhere are fields of a record \<open>env\<close>, so every theorem
  holds for any behaviour they may have. The two byte utilities imported at line 9,
  \<open>hexConcat\<close> and \<open>arrayify\<close>, are written out, because the properties speak about the
  bytes they produce.

  A JavaScript \<open>string\<close> is a \<open>string\<close>; a value that may be \<open>undefined\<close> is an
  \<open>option\<close>; a rejected promise or a \<open>throw\<close> is \<open>Inl\<close> of a sum. The fields the methods
  assign to (\<open>this.factory\<close>, \<open>this.accountContract\<close>) are threaded through: such a method
  returns its result together with the instance after the call.
\<close>

subsection \<open>Errors\<close>

text \<open>
  \<open>ConfigurationError m\<close> is \<open>throw new Error(m)\<close> in this file (line 95 is the only one);
  \<open>CollaboratorError m\<close> is an error that a collaborator raised and that passes through the
  adapter unchanged (there is no \<open>try\<close> in the file).
\<close>

datatype error = ConfigurationError string | CollaboratorError string

definition collaborator :: "string + 'a \<Rightarrow> error + 'a" where
  "collaborator r = (case r of Inl m \<Rightarrow> Inl (CollaboratorError m) | Inr v \<Rightarrow> Inr v)"

subsection \<open>Byte utilities of ethers (ethers/lib/utils, line 9)\<close>

text \<open>
  Modelled from the spec: the initialization code is the raw concatenation of the 20-byte
  factory address followed by the ABI-encoded call data, and the local owner signs over
  the raw hash bytes. The adapter gets both from \<open>hexConcat\<close> and \<open>arrayify\<close> of ethers,
  which are not under src/. They are written out on strings as ethers 5 defines them,
  with the checks they make (\<open>isHexString\<close>, \<open>hexlify\<close>): a string that is not
  \<open>0x\<close> followed by an even number of hex digits is refused.
\<close>

type_synonym bytes = "8 word list"

text \<open>\<open>isHexString\<close>: the regular expression \<open>^0x[0-9A-Fa-f]*$\<close>.\<close>

definition isHexDigit :: "char \<Rightarrow> bool" where
  "isHexDigit c = (c \<in> set ''0123456789abcdefABCDEF'')"

fun isHexString :: "string \<Rightarrow> bool" where
  "isHexString (a # b # ds) = (a = CHR ''0'' \<and> b = CHR ''x'' \<and> list_all isHexDigit ds)"
| "isHexString _ = False"

text \<open>\<open>String.prototype.toLowerCase\<close> on the letters a hex string can hold.\<close>

fun toLowerCase_char :: "char \<Rightarrow> char" where
  "toLowerCase_char c =
     (if c = CHR ''A'' then CHR ''a'' else if c = CHR ''B'' then CHR ''b''
      else if c = CHR ''C'' then CHR ''c'' else if c = CHR ''D'' then CHR ''d''
      else if c = CHR ''E'' then CHR ''e'' else if c = CHR ''F'' then CHR ''f''
      else c)"

definition toLowerCase :: "string \<Rightarrow> string" where
  "toLowerCase s = map toLowerCase_char s"

text \<open>
  \<open>hexlify\<close> of a string: a string that is not a hex string, or one with an odd number of
  digits, is refused; the result is in lower case.
\<close>

definition hexlify :: "string \<Rightarrow> string + string" where
  "hexlify v =
     (if isHexString v
      then (if odd (length v) then Inl ''hex data is odd-length'' else Inr (toLowerCase v))
      else Inl ''invalid hexlify value'')"

text \<open>
  \<open>hexConcat(items)\<close>: \<open>result = "0x"\<close>, then for each item
  \<open>result += hexlify(item).substring(2)\<close>.
\<close>

fun hexConcat_loop :: "string \<Rightarrow> string list \<Rightarrow> string + string" where
  "hexConcat_loop result [] = Inr result"
| "hexConcat_loop result (item # items) =
     (case hexlify item of
        Inl m \<Rightarrow> Inl m
      | Inr h \<Rightarrow> hexConcat_loop (result @ drop 2 h) items)"

definition hexConcat :: "string list \<Rightarrow> string + string" where
  "hexConcat items = hexConcat_loop ''0x'' items"

text \<open>
  \<open>parseInt(d, 16)\<close> of one hex digit: its position among the sixteen digits, in either
  case.
\<close>

fun indexOf :: "char \<Rightarrow> string \<Rightarrow> nat" where
  "indexOf c [] = 0"
| "indexOf c (d # ds) = (if c = d then 0 else Suc (indexOf c ds))"

definition hexDigitValue :: "char \<Rightarrow> nat" where
  "hexDigitValue c = indexOf (toLowerCase_char c) ''0123456789abcdef''"

text \<open>The loop of \<open>arrayify\<close>: one byte for every two digits.\<close>

fun hexPairs :: "string \<Rightarrow> bytes" where
  "hexPairs (a # b # ds) = of_nat (16 * hexDigitValue a + hexDigitValue b) # hexPairs ds"
| "hexPairs _ = []"

text \<open>
  \<open>arrayify\<close> of a string: the bytes a hex string denotes; other strings are refused.
\<close>

definition arrayify :: "string \<Rightarrow> string + bytes" where
  "arrayify v =
     (if isHexString v
      then (let hex = drop 2 v
            in if odd (length hex) then Inl ''hex data is odd-length'' else Inr (hexPairs hex))
      else Inl ''invalid arrayify value'')"

text \<open>
  \<open>toUtf8Bytes\<close>: a \<open>string\<close> of the model is the UTF-8 byte sequence of the JavaScript
  string, one \<open>char\<close> for each byte.
\<close>

definition toUtf8Bytes :: "string \<Rightarrow> bytes" where
  "toUtf8Bytes s = map (\<lambda>c. of_nat (of_char c)) s"

subsection \<open>Data\<close>

text \<open>
  \<open>ethers.Wallet\<close>, as far as the adapter reads it: the \<open>privateKey\<close> property and the
  address that \<open>getAddress()\<close> resolves to.
\<close>

record Wallet =
  privateKey :: string
  address :: string

text \<open>A contract binding (an ethers \<open>Contract\<close>): the adapter reads its \<open>address\<close>.\<close>

record Contract =
  contract_address :: string

subsection \<open>JavaScript numbers\<close>

text \<open>
  A JavaScript number is an IEEE 754 binary64 value: a finite value, one of the two
  infinities, or NaN. A finite value is represented by the rational it denotes (the two
  zeros are not told apart). Arithmetic computes the exact result and rounds it to the
  nearest value with a 53-bit significand, ties to the even significand; below
  \<open>2^-1022\<close> the spacing stays \<open>2^-1074\<close>, and a result that rounds to \<open>2^1024\<close> or
  more is an infinity.
\<close>

datatype number = Finite rat | PosInfinity | NegInfinity | NaN







text \<open>
  A \<open>BigNumberish\<close> value as the adapter meets it in a field of an operation: a
  JavaScript number, an exact integer (a \<open>BigNumber\<close>, a \<open>bigint\<close> or the string of an
  integer), or nothing numeric at all (\<open>undefined\<close>).
\<close>

datatype BigNumberish = JSNumber number | BigNumber int | Undefined


text \<open>\<open>UserOperationStruct\<close> of @account-abstraction/contracts.\<close>

record UserOperationStruct =
  sender :: string
  nonce :: BigNumberish
  initCode :: string
  callData :: string
  callGasLimit :: BigNumberish
  verificationGasLimit :: BigNumberish
  preVerificationGas :: BigNumberish
  maxFeePerGas :: BigNumberish
  maxPriorityFeePerGas :: BigNumberish
  paymasterAndData :: string
  signature :: string

text \<open>The two type arguments of \<open>AccountApiParamsType\<close> (lines 47-50) and the parameters.\<close>

record CreationContext =
  context_address :: string

record SerializedState =
  state_privateKey :: string
  state_ownerTwo :: string

record AccountApiParamsType =
  params_context :: "CreationContext option"
  deserializeState :: "SerializedState option"

text \<open>The argument \<open>context\<close> of \<open>signUserOpWithContext\<close> (line 148).\<close>

record SigningContext =
  signedMessage :: string

text \<open>\<open>MessageSigningRequest\<close>: the adapter reads \<open>rawSigningData\<close> only.\<close>

record MessageSigningRequest =
  rawSigningData :: "string option"

text \<open>A value handed to \<open>signMessage\<close> of a wallet: \<open>Bytes | string\<close>.\<close>

datatype message = Str string | Bytes bytes

text \<open>An argument of \<open>encodeFunctionData\<close>: the adapter passes strings and a number.\<close>

datatype argument = JString string | JNumber int

text \<open>The fields of the class (lines 32-44).\<close>

record TwoOwnerAccountAPI =
  name :: string
  factoryAddress :: "string option"
  ownerOne :: Wallet
  ownerTwo :: string
  index :: int
  accountContract :: "Contract option"
  factory :: "Contract option"

subsection \<open>Collaborators\<close>

text \<open>
  \<open>Config\<close> is the module \<open>exconfig\<close> (line 10): \<open>factory_address\<close> may be missing.
\<close>

record Config =
  factory_address :: "string option"

text \<open>
  What the adapter calls and does not define. \<open>'i\<close> is \<open>TransactionDetailsForUserOp\<close>,
  which the adapter only hands on.
  \<^item> \<open>computeAddress key\<close> is the address of a 32-byte private key (the public key is
    derived and hashed), refused for a key the curve does not admit;
    \<open>randomPrivateKey\<close> is the key that \<open>ethers.Wallet.createRandom()\<close> draws;
  \<^item> \<open>personal_sign key bs\<close> is the signed-message signature of the bytes \<open>bs\<close> under
    \<open>key\<close>;
  \<^item> \<open>defaultAbiCoder_encode\<close> and \<open>encodeFunctionData\<close> are the ABI coder and the
    factory interface; both refuse values that do not fit the types;
  \<^item> \<open>getUserOpHash\<close>, \<open>checkAccountPhantom\<close>, \<open>getAccountAddress\<close> and
    \<open>super_createUnsignedUserOp\<close> are the methods inherited from \<open>AccountApiType\<close>,
    taken by what they answer: the fields of the base class are not part of the model;
  \<^item> \<open>Contract_getNonce\<close> is the chain read \<open>accountContract.getNonce()\<close>.
\<close>

record 'i env =
  computeAddress :: "string \<Rightarrow> string + string"
  randomPrivateKey :: string
  personal_sign :: "string \<Rightarrow> bytes \<Rightarrow> string"
  defaultAbiCoder_encode :: "string list \<Rightarrow> string list \<Rightarrow> string + string"
  encodeFunctionData :: "string \<Rightarrow> argument list \<Rightarrow> string + string"
  getUserOpHash :: "UserOperationStruct \<Rightarrow> string + string"
  checkAccountPhantom :: "string + bool"
  getAccountAddress :: "string + string"
  super_createUnsignedUserOp :: "'i \<Rightarrow> string + UserOperationStruct"
  Contract_getNonce :: "Contract \<Rightarrow> string + int"

text \<open>
  Modelled from the spec: the local keypair is restored from the hex private key of the
  serialized state. \<open>new ethers.Wallet(privateKey)\<close> of ethers, which is not under src/,
  puts \<open>0x\<close> before a key of 64 hex digits that lacks it, keeps the key as \<open>hexlify\<close>
  returns it (in lower case), refuses a key that is not 32 bytes long, and derives the
  address from the key.
\<close>

definition Wallet_new :: "'i env \<Rightarrow> string \<Rightarrow> string + Wallet" where
  "Wallet_new E key =
     (case hexlify (if length key = 64 \<and> list_all isHexDigit key then ''0x'' @ key else key) of
        Inl m \<Rightarrow> Inl m
      | Inr k \<Rightarrow>
          if length k \<noteq> 66 then Inl ''invalid private key''
          else (case computeAddress E k of
                  Inl m \<Rightarrow> Inl m
                | Inr a \<Rightarrow> Inr \<lparr>privateKey = k, address = a\<rparr>))"

text \<open>
  Modelled from the spec: the local keypair is freshly generated when there is no state.
  \<open>ethers.Wallet.createRandom()\<close> of ethers is the wallet of the key it draws; the key is
  well formed there, so the refusals of \<open>Wallet_new\<close> do not arise in the source.
\<close>

definition Wallet_createRandom :: "'i env \<Rightarrow> string + Wallet" where
  "Wallet_createRandom E = Wallet_new E (randomPrivateKey E)"

text \<open>
  Modelled from the spec: the local owner signs with the standard signed-message
  convention. \<open>wallet.signMessage(message)\<close> of ethers, which is not under src/, signs a
  string as its UTF-8 bytes and bytes as they are; it does not fail.
\<close>

definition Wallet_signMessage :: "'i env \<Rightarrow> Wallet \<Rightarrow> message \<Rightarrow> string" where
  "Wallet_signMessage E w m =
     personal_sign E (privateKey w) (case m of Str s \<Rightarrow> toUtf8Bytes s | Bytes bs \<Rightarrow> bs)"

text \<open>
  Modelled from the spec: a binding is a typed handle to the contract at its address.
  \<open>X__factory.connect(address, provider)\<close> of the typechain bindings, which are not under
  src/, makes the handle; its \<open>address\<close> is the string it was given.
\<close>

definition connect :: "string \<Rightarrow> Contract" where
  "connect a = \<lparr>contract_address = a\<rparr>"

subsection \<open>The adapter\<close>

text \<open>Lines 21-22: \<open>Config.factory_address || '0x6c0e...'\<close>; the empty string is falsy.\<close>

definition FACTORY_ADDRESS :: "Config \<Rightarrow> string" where
  "FACTORY_ADDRESS cfg =
     (case factory_address cfg of
        Some a \<Rightarrow> if a \<noteq> [] then a else ''0x6c0ec05Ad55C8B8427119ce50b6087E7B0C9c23e''
      | None \<Rightarrow> ''0x6c0ec05Ad55C8B8427119ce50b6087E7B0C9c23e'')"

text \<open>The constructor (lines 46-64). It fails only when the wallet refuses the key.\<close>

definition TwoOwnerAccountAPI_new ::
  "Config \<Rightarrow> 'i env \<Rightarrow> AccountApiParamsType \<Rightarrow> error + TwoOwnerAccountAPI" where
  "TwoOwnerAccountAPI_new cfg E params =
     (case (case deserializeState params of
              Some st \<Rightarrow>
                if state_privateKey st \<noteq> [] then collaborator (Wallet_new E (state_privateKey st))
                else collaborator (Wallet_createRandom E)
            | None \<Rightarrow> collaborator (Wallet_createRandom E)) of
        Inl e \<Rightarrow> Inl e
      | Inr w \<Rightarrow>
          Inr \<lparr>name = ''SimpleAccountAPI'',
               factoryAddress = Some (FACTORY_ADDRESS cfg),
               ownerOne = w,
               ownerTwo =
                 (let fromContext =
                        (case params_context params of
                           Some c \<Rightarrow> if context_address c \<noteq> [] then context_address c else []
                         | None \<Rightarrow> [])
                  in case deserializeState params of
                       Some st \<Rightarrow> if state_ownerTwo st \<noteq> [] then state_ownerTwo st else fromContext
                     | None \<Rightarrow> fromContext),
               index = 0,
               accountContract = None,
               factory = None\<rparr>)"

text \<open>\<open>serialize\<close> (lines 66-71).\<close>

definition serialize :: "TwoOwnerAccountAPI \<Rightarrow> SerializedState" where
  "serialize this =
     \<lparr>state_privateKey = privateKey (ownerOne this), state_ownerTwo = ownerTwo this\<rparr>"

text \<open>\<open>_getAccountContract\<close> (lines 73-81): the binding is made once and kept.\<close>

definition getAccountContract ::
  "'i env \<Rightarrow> TwoOwnerAccountAPI \<Rightarrow> (error + Contract) \<times> TwoOwnerAccountAPI" where
  "getAccountContract E this =
     (case accountContract this of
        Some c \<Rightarrow> (Inr c, this)
      | None \<Rightarrow>
          (case collaborator (getAccountAddress E) of
             Inl e \<Rightarrow> (Inl e, this)
           | Inr a \<Rightarrow> (Inr (connect a), this\<lparr>accountContract := Some (connect a)\<rparr>)))"

text \<open>
  \<open>getAccountInitCode\<close> (lines 87-106). The factory binding is made from
  \<open>factoryAddress\<close> when there is none yet; without an address the method throws.
\<close>

definition getAccountInitCode ::
  "'i env \<Rightarrow> TwoOwnerAccountAPI \<Rightarrow> (error + string) \<times> TwoOwnerAccountAPI" where
  "getAccountInitCode E this =
     (case (case factory this of
              Some f \<Rightarrow> Inr (f, this)
            | None \<Rightarrow>
                (case factoryAddress this of
                   Some a \<Rightarrow>
                     if a \<noteq> [] then Inr (connect a, this\<lparr>factory := Some (connect a)\<rparr>)
                     else Inl (ConfigurationError ''no factory to get initCode'')
                 | None \<Rightarrow> Inl (ConfigurationError ''no factory to get initCode''))) of
        Inl e \<Rightarrow> (Inl e, this)
      | Inr (f, this') \<Rightarrow>
          (case collaborator
                  (encodeFunctionData E ''createAccount''
                     [JString (address (ownerOne this')), JString (ownerTwo this'),
                      JNumber (index this')]) of
             Inl e \<Rightarrow> (Inl e, this')
           | Inr data \<Rightarrow> (collaborator (hexConcat [contract_address f, data]), this')))"

text \<open>\<open>getNonce\<close> (lines 108-114); \<open>BigNumber.from(0)\<close> is 0.\<close>

definition getNonce ::
  "'i env \<Rightarrow> TwoOwnerAccountAPI \<Rightarrow> (error + int) \<times> TwoOwnerAccountAPI" where
  "getNonce E this =
     (case collaborator (checkAccountPhantom E) of
        Inl e \<Rightarrow> (Inl e, this)
      | Inr isPhantom \<Rightarrow>
          if isPhantom then (Inr 0, this)
          else (case getAccountContract E this of
                  (Inl e, this') \<Rightarrow> (Inl e, this')
                | (Inr c, this') \<Rightarrow> (collaborator (Contract_getNonce E c), this')))"

text \<open>\<open>signOwnerOne\<close> (lines 135-137).\<close>

definition signOwnerOne :: "'i env \<Rightarrow> TwoOwnerAccountAPI \<Rightarrow> string \<Rightarrow> error + string" where
  "signOwnerOne E this userOpHash =
     (case collaborator (arrayify userOpHash) of
        Inl e \<Rightarrow> Inl e
      | Inr bs \<Rightarrow> Inr (Wallet_signMessage E (ownerOne this) (Bytes bs)))"

text \<open>
  \<open>signMessage\<close> (lines 139-144): \<open>request?.rawSigningData || ''\<close>. The first argument
  is not read.
\<close>

definition signMessage ::
  "'i env \<Rightarrow> TwoOwnerAccountAPI \<Rightarrow> 'c \<Rightarrow> MessageSigningRequest option \<Rightarrow> error + string" where
  "signMessage E this ctx request =
     Inr (Wallet_signMessage E (ownerOne this)
            (Str (case request of
                    Some r \<Rightarrow>
                      (case rawSigningData r of
                         Some d \<Rightarrow> if d \<noteq> [] then d else []
                       | None \<Rightarrow> [])
                  | None \<Rightarrow> [])))"

text \<open>
  \<open>signUserOpWithContext\<close> (lines 146-160): the hash, then the local signature, then the
  encoding; the result is the spread of \<open>userOp\<close> with a new \<open>signature\<close>.
\<close>

definition signUserOpWithContext ::
  "'i env \<Rightarrow> TwoOwnerAccountAPI \<Rightarrow> UserOperationStruct \<Rightarrow> SigningContext
     \<Rightarrow> error + UserOperationStruct" where
  "signUserOpWithContext E this userOp ctx =
     (case collaborator (getUserOpHash E userOp) of
        Inl e \<Rightarrow> Inl e
      | Inr h \<Rightarrow>
          (case signOwnerOne E this h of
             Inl e \<Rightarrow> Inl e
           | Inr localSignature \<Rightarrow>
               (case collaborator
                       (defaultAbiCoder_encode E [''bytes'', ''bytes'']
                          [localSignature, signedMessage ctx]) of
                  Inl e \<Rightarrow> Inl e
                | Inr encoded \<Rightarrow> Inr (userOp\<lparr>signature := encoded\<rparr>))))"



subsection \<open>Instances reached from the constructor\<close>

text \<open>
  The instances that exist: those the constructor returns, and those left behind by the
  methods that assign to a field. The collaborators may answer differently at every call,
  so each step has an environment of its own; the environment in the second argument of
  \<open>reachable\<close> is not constrained (it fixes the type of the environments).
\<close>

inductive reachable :: "Config \<Rightarrow> 'i env \<Rightarrow> TwoOwnerAccountAPI \<Rightarrow> bool"
  for cfg :: Config where
  constructed:
    "TwoOwnerAccountAPI_new cfg (E :: 'i env) params = Inr this \<Longrightarrow> reachable cfg E' this"
| after_getAccountInitCode:
    "reachable cfg E this \<Longrightarrow> reachable cfg E' (snd (getAccountInitCode E this))"
| after_getAccountContract:
    "reachable cfg E this \<Longrightarrow> reachable cfg E' (snd (getAccountContract E this))"
| after_getNonce:
    "reachable cfg E this \<Longrightarrow> reachable cfg E' (snd (getNonce E this))"

subsection \<open>A concrete environment\<close>

text \<open>
  Small stand-ins for the collaborators, on which the theorems below are instantiated. Two
  private keys have an address (those of the keys 1 and 2 on secp256k1), and the first is
  the key the random source draws; the signature is a digest of key and message; the ABI
  coder packs its hex values; the factory interface accepts 20-byte hex addresses only, as
  the address coder of ethers does, and answers with a four-byte selector.
\<close>

definition demo_key :: string where
  "demo_key = ''0x0000000000000000000000000000000000000000000000000000000000000001''"

definition demo_key2 :: string where
  "demo_key2 = ''0x0000000000000000000000000000000000000000000000000000000000000002''"

definition demo_wallet :: Wallet where
  "demo_wallet =
     \<lparr>privateKey = demo_key, address = ''0x7E5F4552091A69125d5DfCb7b8C2659029395Bdf''\<rparr>"

definition demo_wallet2 :: Wallet where
  "demo_wallet2 =
     \<lparr>privateKey = demo_key2, address = ''0x2B5AD5c4795c026514f8317c7a215E218DcCD6cF''\<rparr>"

definition demo_op :: UserOperationStruct where
  "demo_op =
     \<lparr>sender = ''0x00000000000000000000000000000000000000bb'', nonce = BigNumber 0,
      initCode = ''0x'', callData = ''0x'', callGasLimit = BigNumber 35000,
      verificationGasLimit = BigNumber 100000, preVerificationGas = JSNumber (Finite 46001),
      maxFeePerGas = BigNumber 2, maxPriorityFeePerGas = BigNumber 1,
      paymasterAndData = ''0x'', signature = []\<rparr>"

definition demo_isAddress :: "string \<Rightarrow> bool" where
  "demo_isAddress a = (isHexString a \<and> length a = 42)"

definition demo_env :: "unit env" where
  "demo_env =
     \<lparr>computeAddress =
        (\<lambda>k. if k = demo_key then Inr (address demo_wallet)
             else if k = demo_key2 then Inr (address demo_wallet2)
             else Inl ''invalid private key''),
      randomPrivateKey = demo_key,
      personal_sign =
        (\<lambda>k bs. ''0x'' @ drop 64 k @ concat (map (\<lambda>b. if b = 0 then ''00'' else ''ff'') bs)),
      defaultAbiCoder_encode =
        (\<lambda>ts vs. if list_all isHexString vs then hexConcat vs
                  else Inl ''invalid arrayify value''),
      encodeFunctionData =
        (\<lambda>f args. case args of
           [JString a, JString b, JNumber n] \<Rightarrow>
             if demo_isAddress a \<and> demo_isAddress b then Inr ''0x5fbfb9cf''
             else Inl ''invalid address''
         | _ \<Rightarrow> Inl ''types/values length mismatch''),
      getUserOpHash = (\<lambda>op. Inr ''0x00ff''),
      checkAccountPhantom = Inr True,
      getAccountAddress = Inr ''0x00000000000000000000000000000000000000bb'',
      super_createUnsignedUserOp = (\<lambda>i. Inr demo_op),
      Contract_getNonce = (\<lambda>c. Inr 7)\<rparr>"

definition demo_this :: TwoOwnerAccountAPI where
  "demo_this =
     \<lparr>name = ''SimpleAccountAPI'',
      factoryAddress = Some ''0x6c0ec05Ad55C8B8427119ce50b6087E7B0C9c23e'',
      ownerOne = demo_wallet, ownerTwo = ''0x00000000000000000000000000000000000000cc'',
      index = 0, accountContract = None, factory = None\<rparr>"

definition unset_this :: TwoOwnerAccountAPI where
  "unset_this = demo_this\<lparr>ownerTwo := []\<rparr>"

text \<open>An instance restored from a state: the second key and a second owner.\<close>

definition restored_this :: TwoOwnerAccountAPI where
  "restored_this = demo_this\<lparr>ownerOne := demo_wallet2\<rparr>"


text \<open>
  The environment of a later invocation: the chain answers differently, the libraries
  are the same.
\<close>

definition demo_env_later :: "unit env" where
  "demo_env_later =
     demo_env\<lparr>checkAccountPhantom := Inr False, Contract_getNonce := \<lambda>c. Inr 8\<rparr>"


section \<open>Properties\<close>

subsection \<open>Hex strings and the bytes they denote\<close>

lemma hexDigitValue_toLowerCase_char: "hexDigitValue (toLowerCase_char c) = hexDigitValue c"
  by (simp add: hexDigitValue_def)

lemma isHexDigit_toLowerCase_char: "isHexDigit c \<Longrightarrow> isHexDigit (toLowerCase_char c)"
  by (auto simp: isHexDigit_def)

lemma toLowerCase_char_prefix:
  "toLowerCase_char CHR ''0'' = CHR ''0''" "toLowerCase_char CHR ''x'' = CHR ''x''"
  by simp_all

lemma hexPairs_toLowerCase: "hexPairs (map toLowerCase_char ds) = hexPairs ds"
  by (induction ds rule: hexPairs.induct)
    (simp_all add: hexDigitValue_toLowerCase_char del: toLowerCase_char.simps)

lemma hexPairs_append: "even (length xs) \<Longrightarrow> hexPairs (xs @ ys) = hexPairs xs @ hexPairs ys"
  by (induction xs rule: hexPairs.induct) simp_all

lemma isHexString_iff: "isHexString v \<longleftrightarrow> (\<exists>ds. v = ''0x'' @ ds \<and> list_all isHexDigit ds)"
  by (cases v rule: isHexString.cases) auto

lemma arrayify_Inr_iff:
  "arrayify v = Inr bs \<longleftrightarrow>
     (\<exists>ds. v = ''0x'' @ ds \<and> list_all isHexDigit ds \<and> even (length ds) \<and> bs = hexPairs ds)"
  by (auto simp: arrayify_def isHexString_iff Let_def)

lemma hexlify_Inr_iff:
  "hexlify v = Inr h \<longleftrightarrow>
     (\<exists>ds. v = ''0x'' @ ds \<and> list_all isHexDigit ds \<and> even (length ds)
           \<and> h = ''0x'' @ map toLowerCase_char ds)"
  by (auto simp: hexlify_def isHexString_iff toLowerCase_def toLowerCase_char_prefix
      simp del: toLowerCase_char.simps)

lemma hexConcat_bytes:
  assumes a: "arrayify a = Inr as" and b: "arrayify b = Inr bs"
  shows "hexConcat [a, b] = Inr (''0x'' @ drop 2 (toLowerCase a) @ drop 2 (toLowerCase b))"
    and "arrayify (''0x'' @ drop 2 (toLowerCase a) @ drop 2 (toLowerCase b)) = Inr (as @ bs)"
proof -
  from a obtain da where da: "a = ''0x'' @ da" "list_all isHexDigit da" "even (length da)"
    "as = hexPairs da"
    unfolding arrayify_Inr_iff by blast
  from b obtain db where db: "b = ''0x'' @ db" "list_all isHexDigit db" "even (length db)"
    "bs = hexPairs db"
    unfolding arrayify_Inr_iff by blast
  have ha: "hexlify a = Inr (''0x'' @ map toLowerCase_char da)"
    unfolding hexlify_Inr_iff using da by blast
  have hb: "hexlify b = Inr (''0x'' @ map toLowerCase_char db)"
    unfolding hexlify_Inr_iff using db by blast
  have la: "drop 2 (toLowerCase a) = map toLowerCase_char da"
    using da(1) by (simp add: toLowerCase_def del: toLowerCase_char.simps)
  have lb: "drop 2 (toLowerCase b) = map toLowerCase_char db"
    using db(1) by (simp add: toLowerCase_def del: toLowerCase_char.simps)
  show "hexConcat [a, b] = Inr (''0x'' @ drop 2 (toLowerCase a) @ drop 2 (toLowerCase b))"
    by (simp add: hexConcat_def ha hb la lb del: toLowerCase_char.simps)
  have digits: "list_all isHexDigit (map toLowerCase_char da @ map toLowerCase_char db)"
    using da(2) db(2)
    by (auto simp: list_all_iff isHexDigit_toLowerCase_char simp del: toLowerCase_char.simps)
  have "arrayify (''0x'' @ (map toLowerCase_char da @ map toLowerCase_char db))
          = Inr (hexPairs (map toLowerCase_char da @ map toLowerCase_char db))"
    unfolding arrayify_Inr_iff using digits da(3) db(3) by auto
  also have "hexPairs (map toLowerCase_char da @ map toLowerCase_char db) = as @ bs"
    using da(3) by (simp add: hexPairs_append hexPairs_toLowerCase da(4) db(4)
        del: toLowerCase_char.simps)
  finally show "arrayify (''0x'' @ drop 2 (toLowerCase a) @ drop 2 (toLowerCase b)) = Inr (as @ bs)"
    by (simp add: la lb del: toLowerCase_char.simps)
qed

subsection \<open>Doubles that are exact\<close>







subsection \<open>Assembling the signature\<close>

text \<open>
  C1. When the authorization hash of \<open>userOp\<close> is \<open>h\<close>, a hex string of bytes
  \<open>hashBytes\<close>, and the ABI coder encodes the pair (signed-message signature of
  \<open>ownerOne\<close> over \<open>hashBytes\<close>, \<open>context.signedMessage\<close>), in this order, under the
  types \<open>(bytes, bytes)\<close> as \<open>encoded\<close>, then \<open>signUserOpWithContext\<close> returns an
  operation whose \<open>signature\<close> is \<open>encoded\<close> and whose other fields are those of
  \<open>userOp\<close>. The method receives \<open>userOp\<close> as a value and builds its result by the
  spread expression, so there is no assignment to the input.
\<close>

theorem signUserOpWithContext_signature:
  assumes "getUserOpHash E userOp = Inr h"
    and "arrayify h = Inr hashBytes"
    and "defaultAbiCoder_encode E [''bytes'', ''bytes'']
           [personal_sign E (privateKey (ownerOne this)) hashBytes, signedMessage ctx] = Inr encoded"
  shows "\<exists>signed. signUserOpWithContext E this userOp ctx = Inr signed
           \<and> signature signed = encoded
           \<and> signed\<lparr>signature := signature userOp\<rparr> = userOp"
  using assms
  by (simp add: signUserOpWithContext_def signOwnerOne_def Wallet_signMessage_def collaborator_def)

text \<open>The theorem at the operation \<open>demo_op\<close>, with its three hypotheses discharged.\<close>

theorem signUserOpWithContext_signature_witness:
  "getUserOpHash demo_env demo_op = Inr ''0x00ff''
   \<and> arrayify ''0x00ff'' = Inr [0, 255]
   \<and> defaultAbiCoder_encode demo_env [''bytes'', ''bytes'']
        [personal_sign demo_env (privateKey (ownerOne demo_this)) [0, 255], ''0xabcd'']
      = Inr ''0x0100ffabcd''
   \<and> (\<exists>signed. signUserOpWithContext demo_env demo_this demo_op \<lparr>signedMessage = ''0xabcd''\<rparr>
                  = Inr signed
         \<and> signature signed = ''0x0100ffabcd''
         \<and> signed\<lparr>signature := signature demo_op\<rparr> = demo_op)"
proof -
  have h: "getUserOpHash demo_env demo_op = Inr ''0x00ff''"
    by (simp add: demo_env_def)
  have a: "arrayify ''0x00ff'' = Inr [0, 255]"
    by (simp add: arrayify_def hexDigitValue_def isHexDigit_def)
  have e: "defaultAbiCoder_encode demo_env [''bytes'', ''bytes'']
             [personal_sign demo_env (privateKey (ownerOne demo_this)) [0, 255],
              signedMessage \<lparr>signedMessage = ''0xabcd''\<rparr>] = Inr ''0x0100ffabcd''"
    by (simp add: demo_env_def demo_this_def demo_wallet_def demo_key_def hexConcat_def hexlify_def
        toLowerCase_def isHexDigit_def)
  show ?thesis
    using h a e signUserOpWithContext_signature [OF h a e] by simp
qed



subsection \<open>Initialization code\<close>

text \<open>
  C3. Let \<open>F\<close> be the factory address: the address of the binding when there is one,
  otherwise a non-empty \<open>factoryAddress\<close>. When the factory interface encodes the call
  \<open>createAccount(ownerOne address, ownerTwo, index)\<close> as \<open>data\<close>, and \<open>F\<close> and \<open>data\<close> are
  hex strings of bytes \<open>factoryBytes\<close> and \<open>dataBytes\<close>, then \<open>getAccountInitCode\<close> returns
  \<open>hexConcat [F, data]\<close>, whose bytes are \<open>factoryBytes\<close> followed by \<open>dataBytes\<close>; the
  factory address is a prefix. With no binding and no (or an empty) \<open>factoryAddress\<close> the
  method throws \<open>no factory to get initCode\<close> and leaves the instance as it was.
\<close>

theorem getAccountInitCode_result:
  "((factory this = Some f \<and> F = contract_address f
       \<or> factory this = None \<and> factoryAddress this = Some F \<and> F \<noteq> [])
     \<and> encodeFunctionData E ''createAccount''
           [JString (address (ownerOne this)), JString (ownerTwo this), JNumber (index this)]
         = Inr data
     \<and> arrayify F = Inr factoryBytes \<and> arrayify data = Inr dataBytes
     \<longrightarrow> (\<exists>code. fst (getAccountInitCode E this) = Inr code
            \<and> hexConcat [F, data] = Inr code
            \<and> arrayify code = Inr (factoryBytes @ dataBytes)
            \<and> prefix factoryBytes (factoryBytes @ dataBytes)))
   \<and> (factory this = None \<and> (factoryAddress this = None \<or> factoryAddress this = Some [])
     \<longrightarrow> getAccountInitCode E this
           = (Inl (ConfigurationError ''no factory to get initCode''), this))"
proof (intro conjI impI)
  assume h: "(factory this = Some f \<and> F = contract_address f
       \<or> factory this = None \<and> factoryAddress this = Some F \<and> F \<noteq> [])
     \<and> encodeFunctionData E ''createAccount''
           [JString (address (ownerOne this)), JString (ownerTwo this), JNumber (index this)]
         = Inr data
     \<and> arrayify F = Inr factoryBytes \<and> arrayify data = Inr dataBytes"
  then have res: "factory this = Some f \<and> F = contract_address f
       \<or> factory this = None \<and> factoryAddress this = Some F \<and> F \<noteq> []"
    and enc: "encodeFunctionData E ''createAccount''
           [JString (address (ownerOne this)), JString (ownerTwo this), JNumber (index this)]
         = Inr data"
    and fb: "arrayify F = Inr factoryBytes" and db: "arrayify data = Inr dataBytes"
    by blast+
  let ?code = "''0x'' @ drop 2 (toLowerCase F) @ drop 2 (toLowerCase data)"
  have cat: "hexConcat [F, data] = Inr ?code"
    by (rule hexConcat_bytes(1) [OF fb db])
  have bytes: "arrayify ?code = Inr (factoryBytes @ dataBytes)"
    by (rule hexConcat_bytes(2) [OF fb db])
  have "fst (getAccountInitCode E this) = Inr ?code"
    using res enc cat
    by (auto simp: getAccountInitCode_def collaborator_def connect_def)
  with cat bytes
  show "\<exists>code. fst (getAccountInitCode E this) = Inr code
            \<and> hexConcat [F, data] = Inr code
            \<and> arrayify code = Inr (factoryBytes @ dataBytes)
            \<and> prefix factoryBytes (factoryBytes @ dataBytes)"
    by simp
next
  assume "factory this = None \<and> (factoryAddress this = None \<or> factoryAddress this = Some [])"
  then show "getAccountInitCode E this
           = (Inl (ConfigurationError ''no factory to get initCode''), this)"
    by (auto simp: getAccountInitCode_def)
qed

text \<open>
  The default factory address and a four-byte call: the 20 bytes of the address come first.
  The second instance has an empty \<open>factoryAddress\<close>.
\<close>

theorem getAccountInitCode_result_witness:
  "(\<exists>code. fst (getAccountInitCode demo_env demo_this) = Inr code
      \<and> hexConcat [''0x6c0ec05Ad55C8B8427119ce50b6087E7B0C9c23e'', ''0x5fbfb9cf''] = Inr code
      \<and> arrayify code
          = Inr ([108, 14, 192, 90, 213, 92, 139, 132, 39, 17, 156, 229, 11, 96, 135, 231, 176,
                  201, 194, 62] @ [95, 191, 185, 207]))
   \<and> getAccountInitCode demo_env (demo_this\<lparr>factoryAddress := Some []\<rparr>)
       = (Inl (ConfigurationError ''no factory to get initCode''),
          demo_this\<lparr>factoryAddress := Some []\<rparr>)"
proof -
  have res: "factory demo_this = None
      \<and> factoryAddress demo_this = Some ''0x6c0ec05Ad55C8B8427119ce50b6087E7B0C9c23e''
      \<and> ''0x6c0ec05Ad55C8B8427119ce50b6087E7B0C9c23e'' \<noteq> []"
    by (simp add: demo_this_def)
  have enc: "encodeFunctionData demo_env ''createAccount''
               [JString (address (ownerOne demo_this)), JString (ownerTwo demo_this),
                JNumber (index demo_this)] = Inr ''0x5fbfb9cf''"
    by (simp add: demo_env_def demo_this_def demo_wallet_def demo_key_def demo_isAddress_def isHexDigit_def)
  have fb: "arrayify ''0x6c0ec05Ad55C8B8427119ce50b6087E7B0C9c23e''
              = Inr [108, 14, 192, 90, 213, 92, 139, 132, 39, 17, 156, 229, 11, 96, 135, 231,
                     176, 201, 194, 62]"
    by (simp add: arrayify_def isHexDigit_def hexDigitValue_def)
  have db: "arrayify ''0x5fbfb9cf'' = Inr [95, 191, 185, 207]"
    by (simp add: arrayify_def isHexDigit_def hexDigitValue_def)
  have none: "factory (demo_this\<lparr>factoryAddress := Some []\<rparr>) = None
      \<and> (factoryAddress (demo_this\<lparr>factoryAddress := Some []\<rparr>) = None
          \<or> factoryAddress (demo_this\<lparr>factoryAddress := Some []\<rparr>) = Some [])"
    by (simp add: demo_this_def)
  from getAccountInitCode_result
         [where this = demo_this and E = demo_env
            and F = "''0x6c0ec05Ad55C8B8427119ce50b6087E7B0C9c23e''" and data = "''0x5fbfb9cf''",
          THEN conjunct1, rule_format]
       res enc fb db
  have one: "\<exists>code. fst (getAccountInitCode demo_env demo_this) = Inr code
      \<and> hexConcat [''0x6c0ec05Ad55C8B8427119ce50b6087E7B0C9c23e'', ''0x5fbfb9cf''] = Inr code
      \<and> arrayify code
          = Inr ([108, 14, 192, 90, 213, 92, 139, 132, 39, 17, 156, 229, 11, 96, 135, 231, 176,
                  201, 194, 62] @ [95, 191, 185, 207])"
    by blast
  from getAccountInitCode_result
         [where this = "demo_this\<lparr>factoryAddress := Some []\<rparr>" and E = demo_env,
          THEN conjunct2, rule_format, OF none]
  have two: "getAccountInitCode demo_env (demo_this\<lparr>factoryAddress := Some []\<rparr>)
       = (Inl (ConfigurationError ''no factory to get initCode''),
          demo_this\<lparr>factoryAddress := Some []\<rparr>)" .
  from one two show ?thesis by blast
qed

text \<open>
  C7. With \<open>ownerTwo\<close> the empty string and a factory address \<open>F\<close>, \<open>getAccountInitCode\<close>
  checks nothing about \<open>ownerTwo\<close> and throws nothing of its own: the empty string goes
  unchanged to the \<open>createAccount\<close> encoder of the factory interface, and the result is
  the encoder's error, or the error of \<open>hexConcat\<close>, or the concatenation. Whether
  initialization code comes out is decided by the encoder.
\<close>

theorem getAccountInitCode_ownerTwo_unset:
  assumes "ownerTwo this = []"
    and "factory this = Some f \<and> F = contract_address f
         \<or> factory this = None \<and> factoryAddress this = Some F \<and> F \<noteq> []"
  shows "fst (getAccountInitCode E this)
           = (case encodeFunctionData E ''createAccount''
                     [JString (address (ownerOne this)), JString [], JNumber (index this)] of
                Inl m \<Rightarrow> Inl (CollaboratorError m)
              | Inr data \<Rightarrow>
                  (case hexConcat [F, data] of
                     Inl m \<Rightarrow> Inl (CollaboratorError m)
                   | Inr code \<Rightarrow> Inr code))"
  using assms
  by (auto simp: getAccountInitCode_def collaborator_def connect_def split: sum.splits)

text \<open>An encoder that accepts the empty string: the initialization code is produced.\<close>

theorem getAccountInitCode_ownerTwo_unset_witness:
  "ownerTwo unset_this = []
   \<and> factory unset_this = None
   \<and> factoryAddress unset_this = Some ''0x6c0ec05Ad55C8B8427119ce50b6087E7B0C9c23e''
   \<and> fst (getAccountInitCode (demo_env\<lparr>encodeFunctionData := \<lambda>f args. Inr ''0x5fbfb9cf''\<rparr>)
            unset_this)
       = Inr ''0x6c0ec05ad55c8b8427119ce50b6087e7b0c9c23e5fbfb9cf''"
proof -
  have o: "ownerTwo unset_this = []"
    by (simp add: unset_this_def)
  have r: "factory unset_this = Some \<lparr>contract_address = []\<rparr>
             \<and> ''0x6c0ec05Ad55C8B8427119ce50b6087E7B0C9c23e'' = contract_address \<lparr>contract_address = []\<rparr>
         \<or> factory unset_this = None
             \<and> factoryAddress unset_this = Some ''0x6c0ec05Ad55C8B8427119ce50b6087E7B0C9c23e''
             \<and> ''0x6c0ec05Ad55C8B8427119ce50b6087E7B0C9c23e'' \<noteq> []"
    by (simp add: unset_this_def demo_this_def)
  have c: "hexConcat [''0x6c0ec05Ad55C8B8427119ce50b6087E7B0C9c23e'', ''0x5fbfb9cf'']
             = Inr ''0x6c0ec05ad55c8b8427119ce50b6087e7b0c9c23e5fbfb9cf''"
    by (simp add: hexConcat_def hexlify_def toLowerCase_def isHexDigit_def)
  from getAccountInitCode_ownerTwo_unset
         [OF o r, of "demo_env\<lparr>encodeFunctionData := \<lambda>f args. Inr ''0x5fbfb9cf''\<rparr>"]
  have "fst (getAccountInitCode (demo_env\<lparr>encodeFunctionData := \<lambda>f args. Inr ''0x5fbfb9cf''\<rparr>)
            unset_this)
       = Inr ''0x6c0ec05ad55c8b8427119ce50b6087e7b0c9c23e5fbfb9cf''"
    by (simp add: c)
  with o show ?thesis
    by (simp add: unset_this_def demo_this_def)
qed

text \<open>
  An encoder that accepts 20-byte hex addresses only, which is what ethers does for a
  parameter of type \<open>address\<close>: the instance built with neither a state nor a context has
  the empty \<open>ownerTwo\<close>, and \<open>getAccountInitCode\<close> fails on it with the encoder's error.
\<close>

theorem getAccountInitCode_ownerTwo_unset_fails:
  "TwoOwnerAccountAPI_new \<lparr>factory_address = None\<rparr> demo_env
       \<lparr>params_context = None, deserializeState = None\<rparr> = Inr unset_this
   \<and> ownerTwo unset_this = []
   \<and> fst (getAccountInitCode demo_env unset_this) = Inl (CollaboratorError ''invalid address'')"
  by (simp add: TwoOwnerAccountAPI_new_def Wallet_createRandom_def Wallet_new_def hexlify_def
      toLowerCase_def FACTORY_ADDRESS_def getAccountInitCode_def collaborator_def connect_def
      unset_this_def demo_this_def demo_env_def demo_wallet_def demo_key_def
      demo_isAddress_def isHexDigit_def)

text \<open>
  The constructor stores \<open>FACTORY_ADDRESS\<close>, which is never empty, and no method assigns to
  \<open>factoryAddress\<close>.
\<close>

lemma FACTORY_ADDRESS_nonempty: "FACTORY_ADDRESS cfg \<noteq> []"
  by (simp add: FACTORY_ADDRESS_def split: option.split)

lemma TwoOwnerAccountAPI_new_factoryAddress:
  "TwoOwnerAccountAPI_new cfg E params = Inr this
     \<Longrightarrow> factoryAddress this = Some (FACTORY_ADDRESS cfg)"
  by (auto simp: TwoOwnerAccountAPI_new_def split: sum.splits)

lemma getAccountInitCode_factoryAddress:
  "factoryAddress (snd (getAccountInitCode E this)) = factoryAddress this"
  by (auto simp: getAccountInitCode_def split: option.splits sum.splits)

lemma getAccountContract_factoryAddress:
  "factoryAddress (snd (getAccountContract E this)) = factoryAddress this"
  by (auto simp: getAccountContract_def split: option.splits sum.splits)

lemma getNonce_factoryAddress:
  "factoryAddress (snd (getNonce E this)) = factoryAddress this"
proof -
  have "snd (getNonce E this) = this \<or> snd (getNonce E this) = snd (getAccountContract E this)"
    by (auto simp: getNonce_def split: sum.splits prod.splits)
  then show ?thesis
    by (auto simp: getAccountContract_factoryAddress)
qed

lemma reachable_factoryAddress:
  "reachable cfg E this \<Longrightarrow> factoryAddress this = Some (FACTORY_ADDRESS cfg)"
  by (induction rule: reachable.induct)
    (simp_all add: TwoOwnerAccountAPI_new_factoryAddress getAccountInitCode_factoryAddress
      getAccountContract_factoryAddress getNonce_factoryAddress)

lemma collaborator_not_ConfigurationError: "collaborator r \<noteq> Inl (ConfigurationError m)"
  by (simp add: collaborator_def split: sum.split)

lemma getAccountInitCode_not_ConfigurationError:
  assumes "factoryAddress this = Some a" and "a \<noteq> []"
  shows "fst (getAccountInitCode E this) \<noteq> Inl (ConfigurationError m)"
  using assms collaborator_not_ConfigurationError [of _ m]
  by (auto simp: getAccountInitCode_def split: option.splits sum.splits)

text \<open>
  C9. On an instance reached from the constructor, \<open>factoryAddress\<close> is the non-empty
  \<open>FACTORY_ADDRESS\<close>, and \<open>getAccountInitCode\<close> never fails with the error of line 95,
  whatever the collaborators answer.
\<close>

theorem getAccountInitCode_never_ConfigurationError:
  assumes "reachable cfg E this"
  shows "FACTORY_ADDRESS cfg \<noteq> []
     \<and> factoryAddress this = Some (FACTORY_ADDRESS cfg)
     \<and> (\<forall>m. fst (getAccountInitCode E' this) \<noteq> Inl (ConfigurationError m))"
  using reachable_factoryAddress [OF assms] FACTORY_ADDRESS_nonempty [of cfg]
    getAccountInitCode_not_ConfigurationError [of this "FACTORY_ADDRESS cfg" E']
  by simp

text \<open>A configuration whose \<open>factory_address\<close> is the empty string: the default is used.\<close>

theorem getAccountInitCode_never_ConfigurationError_witness:
  "TwoOwnerAccountAPI_new \<lparr>factory_address = Some []\<rparr> demo_env
       \<lparr>params_context =
          Some \<lparr>context_address = ''0x00000000000000000000000000000000000000cc''\<rparr>,
        deserializeState = None\<rparr> = Inr demo_this
   \<and> reachable \<lparr>factory_address = Some []\<rparr> demo_env demo_this
   \<and> factoryAddress demo_this = Some ''0x6c0ec05Ad55C8B8427119ce50b6087E7B0C9c23e''
   \<and> fst (getAccountInitCode demo_env demo_this)
       \<noteq> Inl (ConfigurationError ''no factory to get initCode'')"
proof -
  have n: "TwoOwnerAccountAPI_new \<lparr>factory_address = Some []\<rparr> demo_env
       \<lparr>params_context =
          Some \<lparr>context_address = ''0x00000000000000000000000000000000000000cc''\<rparr>,
        deserializeState = None\<rparr> = Inr demo_this"
    by (simp add: TwoOwnerAccountAPI_new_def Wallet_createRandom_def Wallet_new_def hexlify_def
        toLowerCase_def isHexDigit_def collaborator_def FACTORY_ADDRESS_def demo_env_def
        demo_this_def demo_wallet_def demo_key_def)
  have r: "reachable \<lparr>factory_address = Some []\<rparr> demo_env demo_this"
    by (rule reachable.constructed [OF n])
  have a: "FACTORY_ADDRESS \<lparr>factory_address = Some []\<rparr>
             = ''0x6c0ec05Ad55C8B8427119ce50b6087E7B0C9c23e''"
    by (simp add: FACTORY_ADDRESS_def)
  from getAccountInitCode_never_ConfigurationError [OF r, of demo_env] n r a
  show ?thesis by simp
qed

subsection \<open>Nonce\<close>

text \<open>
  C4. When the account is phantom, \<open>getNonce\<close> returns 0, whatever the account address
  lookup and the chain read of the nonce would answer: neither is consulted. When the account is not phantom and \<open>c\<close> is the account binding
  (the one kept, or a new one at the account address), the result of \<open>getNonce\<close> is the
  result of the chain read \<open>c.getNonce()\<close>: its value, or its error as it is.
\<close>

theorem getNonce_result:
  "(checkAccountPhantom E = Inr True
      \<longrightarrow> fst (getNonce (E\<lparr>getAccountAddress := addr, Contract_getNonce := reads\<rparr>) this)
            = Inr 0)
   \<and> (checkAccountPhantom E = Inr False
        \<and> (accountContract this = Some c
            \<or> accountContract this = None \<and> getAccountAddress E = Inr a \<and> c = connect a)
      \<longrightarrow> fst (getNonce E this)
            = (case Contract_getNonce E c of
                 Inl m \<Rightarrow> Inl (CollaboratorError m)
               | Inr n \<Rightarrow> Inr n))"
  by (auto simp: getNonce_def getAccountContract_def collaborator_def split: sum.splits)

text \<open>
  A phantom account with a failing address lookup and a chain nonce of 41; a deployed
  account with chain nonce 7; a deployed account whose chain read times out.
\<close>

theorem getNonce_result_witness:
  "fst (getNonce (demo_env\<lparr>getAccountAddress := Inl ''network error'',
                           Contract_getNonce := \<lambda>c. Inr 41\<rparr>) demo_this) = Inr 0
   \<and> fst (getNonce (demo_env\<lparr>checkAccountPhantom := Inr False\<rparr>) demo_this) = Inr 7
   \<and> fst (getNonce (demo_env\<lparr>checkAccountPhantom := Inr False,
                              Contract_getNonce := \<lambda>c. Inl ''timeout''\<rparr>) demo_this)
       = Inl (CollaboratorError ''timeout'')"
proof -
  have p: "checkAccountPhantom demo_env = Inr True"
    by (simp add: demo_env_def)
  have d: "checkAccountPhantom (demo_env\<lparr>checkAccountPhantom := Inr False\<rparr>) = Inr False
      \<and> (accountContract demo_this = Some (connect ''0x00000000000000000000000000000000000000bb'')
         \<or> accountContract demo_this = None
           \<and> getAccountAddress (demo_env\<lparr>checkAccountPhantom := Inr False\<rparr>)
               = Inr ''0x00000000000000000000000000000000000000bb''
           \<and> connect ''0x00000000000000000000000000000000000000bb''
               = connect ''0x00000000000000000000000000000000000000bb'')"
    by (simp add: demo_env_def demo_this_def)
  have f: "checkAccountPhantom
             (demo_env\<lparr>checkAccountPhantom := Inr False,
                       Contract_getNonce := \<lambda>c. Inl ''timeout''\<rparr>) = Inr False
      \<and> (accountContract demo_this = Some (connect ''0x00000000000000000000000000000000000000bb'')
         \<or> accountContract demo_this = None
           \<and> getAccountAddress
                (demo_env\<lparr>checkAccountPhantom := Inr False,
                          Contract_getNonce := \<lambda>c. Inl ''timeout''\<rparr>)
               = Inr ''0x00000000000000000000000000000000000000bb''
           \<and> connect ''0x00000000000000000000000000000000000000bb''
               = connect ''0x00000000000000000000000000000000000000bb'')"
    by (simp add: demo_env_def demo_this_def)
  from getNonce_result [where E = demo_env, THEN conjunct1, rule_format, OF p]
  have one: "fst (getNonce (demo_env\<lparr>getAccountAddress := Inl ''network error'',
                           Contract_getNonce := \<lambda>c. Inr 41\<rparr>) demo_this) = Inr 0" .
  from getNonce_result [THEN conjunct2, rule_format, OF d]
  have two: "fst (getNonce (demo_env\<lparr>checkAccountPhantom := Inr False\<rparr>) demo_this) = Inr 7"
    by (simp add: demo_env_def)
  from getNonce_result [THEN conjunct2, rule_format, OF f]
  have three: "fst (getNonce (demo_env\<lparr>checkAccountPhantom := Inr False,
                              Contract_getNonce := \<lambda>c. Inl ''timeout''\<rparr>) demo_this)
       = Inl (CollaboratorError ''timeout'')"
    by simp
  from one two three show ?thesis by blast
qed

subsection \<open>Gas adjustment\<close>





subsection \<open>Serialization\<close>

text \<open>
  A wallet that \<open>Wallet_new\<close> returns holds the key in the form \<open>Wallet_new\<close> keeps it, so
  the wallet of its own key is the wallet itself.
\<close>

lemma toLowerCase_char_idem: "toLowerCase_char (toLowerCase_char c) = toLowerCase_char c"
  by simp

lemma hexlify_idem:
  assumes "hexlify v = Inr h"
  shows "hexlify h = Inr h"
proof -
  from assms obtain ds where ds: "list_all isHexDigit ds" "even (length ds)"
    and h: "h = ''0x'' @ map toLowerCase_char ds"
    unfolding hexlify_Inr_iff by blast
  have "list_all isHexDigit (map toLowerCase_char ds)"
    using ds(1) by (auto simp: list_all_iff isHexDigit_toLowerCase_char
        simp del: toLowerCase_char.simps)
  moreover have "map toLowerCase_char (map toLowerCase_char ds) = map toLowerCase_char ds"
    by (simp add: toLowerCase_char_idem del: toLowerCase_char.simps)
  ultimately show ?thesis
    unfolding hexlify_Inr_iff h using ds(2) by auto
qed

lemma Wallet_new_again:
  assumes "Wallet_new E key = Inr w" and "computeAddress E' = computeAddress E"
  shows "Wallet_new E' (privateKey w) = Inr w" and "privateKey w \<noteq> []"
proof -
  let ?key = "if length key = 64 \<and> list_all isHexDigit key then ''0x'' @ key else key"
  from assms(1) obtain k a where k: "hexlify ?key = Inr k" and len: "length k = 66"
    and a: "computeAddress E k = Inr a" and w: "w = \<lparr>privateKey = k, address = a\<rparr>"
    by (auto simp: Wallet_new_def split: sum.splits if_splits)
  have "hexlify k = Inr k"
    using k by (rule hexlify_idem)
  then show "Wallet_new E' (privateKey w) = Inr w"
    using len a assms(2) by (simp add: Wallet_new_def w)
  show "privateKey w \<noteq> []"
    using len by (auto simp: w)
qed

lemma TwoOwnerAccountAPI_new_ownerOne:
  assumes "TwoOwnerAccountAPI_new cfg E params = Inr this"
  shows "\<exists>key. Wallet_new E key = Inr (ownerOne this)"
  using assms
  by (auto simp: TwoOwnerAccountAPI_new_def Wallet_createRandom_def collaborator_def
      split: option.splits sum.splits if_splits)

text \<open>
  The methods assign to \<open>factory\<close> and \<open>accountContract\<close> only: an instance reached from
  the constructor is an instance the constructor returned, with some bindings cached.
\<close>

lemma getAccountInitCode_assigns:
  "\<exists>f. snd (getAccountInitCode E this) = this\<lparr>factory := f\<rparr>"
proof -
  have "snd (getAccountInitCode E this) = this
      \<or> (\<exists>a. snd (getAccountInitCode E this) = this\<lparr>factory := Some (connect a)\<rparr>)"
    by (auto simp: getAccountInitCode_def split: option.splits sum.splits)
  moreover have "this = this\<lparr>factory := factory this\<rparr>"
    by simp
  ultimately show ?thesis
    by metis
qed

lemma getAccountContract_assigns:
  "\<exists>c. snd (getAccountContract E this) = this\<lparr>accountContract := c\<rparr>"
proof -
  have "snd (getAccountContract E this) = this
      \<or> (\<exists>a. snd (getAccountContract E this) = this\<lparr>accountContract := Some (connect a)\<rparr>)"
    by (auto simp: getAccountContract_def split: option.splits sum.splits)
  moreover have "this = this\<lparr>accountContract := accountContract this\<rparr>"
    by simp
  ultimately show ?thesis
    by metis
qed

lemma getNonce_assigns:
  "\<exists>c. snd (getNonce E this) = this\<lparr>accountContract := c\<rparr>"
proof -
  have "snd (getNonce E this) = this \<or> snd (getNonce E this) = snd (getAccountContract E this)"
    by (auto simp: getNonce_def split: sum.splits prod.splits)
  moreover have "this = this\<lparr>accountContract := accountContract this\<rparr>"
    by simp
  ultimately show ?thesis
    using getAccountContract_assigns [of E this] by metis
qed

lemma reachable_constructed:
  assumes "reachable cfg (E :: 'i env) this"
  shows "\<exists>(E0 :: 'i env) params this0 c f.
           TwoOwnerAccountAPI_new cfg E0 params = Inr this0
           \<and> this = this0\<lparr>accountContract := c, factory := f\<rparr>"
  using assms
proof (induction rule: reachable.induct)
  case (constructed E0 params this E')
  have "this = this\<lparr>accountContract := accountContract this, factory := factory this\<rparr>"
    by simp
  with constructed show ?case
    by blast
next
  case (after_getAccountInitCode E this E')
  then obtain E0 :: "'i env" and params this0 c f
    where n: "TwoOwnerAccountAPI_new cfg E0 params = Inr this0"
      and t: "this = this0\<lparr>accountContract := c, factory := f\<rparr>"
    by blast
  obtain f' where "snd (getAccountInitCode E this) = this\<lparr>factory := f'\<rparr>"
    using getAccountInitCode_assigns by blast
  then have "snd (getAccountInitCode E this) = this0\<lparr>accountContract := c, factory := f'\<rparr>"
    by (simp add: t)
  with n show ?case
    by blast
next
  case (after_getAccountContract E this E')
  then obtain E0 :: "'i env" and params this0 c f
    where n: "TwoOwnerAccountAPI_new cfg E0 params = Inr this0"
      and t: "this = this0\<lparr>accountContract := c, factory := f\<rparr>"
    by blast
  obtain c' where "snd (getAccountContract E this) = this\<lparr>accountContract := c'\<rparr>"
    using getAccountContract_assigns by blast
  then have "snd (getAccountContract E this) = this0\<lparr>accountContract := c', factory := f\<rparr>"
    by (simp add: t)
  with n show ?case
    by blast
next
  case (after_getNonce E this E')
  then obtain E0 :: "'i env" and params this0 c f
    where n: "TwoOwnerAccountAPI_new cfg E0 params = Inr this0"
      and t: "this = this0\<lparr>accountContract := c, factory := f\<rparr>"
    by blast
  obtain c' where "snd (getNonce E this) = this\<lparr>accountContract := c'\<rparr>"
    using getNonce_assigns by blast
  then have "snd (getNonce E this) = this0\<lparr>accountContract := c', factory := f\<rparr>"
    by (simp add: t)
  with n show ?case
    by blast
qed

text \<open>
  C6. Let \<open>this\<close> be an instance the constructor returned, with whatever bindings the
  methods have cached in it since (they assign to \<open>accountContract\<close> and \<open>factory\<close> only).
  Constructing an instance from its serialized state succeeds, under any configuration
  and any environment that derives addresses as before, and the new instance has the
  same wallet, hence the same \<open>ownerOne\<close> address, and the same \<open>ownerTwo\<close>.
\<close>

theorem serialize_roundtrip:
  assumes "TwoOwnerAccountAPI_new cfg E params = Inr this"
    and "computeAddress E' = computeAddress E"
  shows "\<exists>restored.
           TwoOwnerAccountAPI_new cfg' E'
             \<lparr>params_context = None,
              deserializeState = Some (serialize (this\<lparr>accountContract := c, factory := f\<rparr>))\<rparr>
           = Inr restored
           \<and> ownerOne restored = ownerOne this
           \<and> address (ownerOne restored) = address (ownerOne this)
           \<and> ownerTwo restored = ownerTwo this"
proof -
  obtain key where key: "Wallet_new E key = Inr (ownerOne this)"
    using TwoOwnerAccountAPI_new_ownerOne [OF assms(1)] by blast
  note again = Wallet_new_again [OF key assms(2)]
  show ?thesis
    using again by (simp add: TwoOwnerAccountAPI_new_def serialize_def collaborator_def)
qed

text \<open>
  An instance built from a state with the second key and a second owner, with a factory
  binding cached since; the random source would draw the first key. The restored
  instance has the address of the second key and the second owner of the state.
\<close>

theorem serialize_roundtrip_witness:
  "TwoOwnerAccountAPI_new \<lparr>factory_address = None\<rparr> demo_env
       \<lparr>params_context = None,
        deserializeState =
          Some \<lparr>state_privateKey = demo_key2,
                state_ownerTwo = ''0x00000000000000000000000000000000000000cc''\<rparr>\<rparr>
     = Inr restored_this
   \<and> computeAddress demo_env_later = computeAddress demo_env
   \<and> (\<exists>restored.
         TwoOwnerAccountAPI_new \<lparr>factory_address = Some ''0x00000000000000000000000000000000000000ff''\<rparr>
           demo_env_later
           \<lparr>params_context = None,
            deserializeState =
              Some (serialize (restored_this\<lparr>accountContract := None,
                                             factory := Some (connect ''0x6c0ec05Ad55C8B8427119ce50b6087E7B0C9c23e'')\<rparr>))\<rparr>
         = Inr restored
         \<and> address (ownerOne restored) = ''0x2B5AD5c4795c026514f8317c7a215E218DcCD6cF''
         \<and> ownerTwo restored = ''0x00000000000000000000000000000000000000cc'')"
proof -
  have n: "TwoOwnerAccountAPI_new \<lparr>factory_address = None\<rparr> demo_env
       \<lparr>params_context = None,
        deserializeState =
          Some \<lparr>state_privateKey = demo_key2,
                state_ownerTwo = ''0x00000000000000000000000000000000000000cc''\<rparr>\<rparr>
     = Inr restored_this"
    by (simp add: TwoOwnerAccountAPI_new_def Wallet_new_def hexlify_def toLowerCase_def
        isHexDigit_def collaborator_def FACTORY_ADDRESS_def demo_env_def demo_key_def
        demo_key2_def demo_wallet2_def restored_this_def demo_this_def)
  have a: "computeAddress demo_env_later = computeAddress demo_env"
    by (simp add: demo_env_later_def)
  have v: "address (ownerOne restored_this) = ''0x2B5AD5c4795c026514f8317c7a215E218DcCD6cF''"
    "ownerTwo restored_this = ''0x00000000000000000000000000000000000000cc''"
    by (simp_all add: restored_this_def demo_this_def demo_wallet2_def)
  from serialize_roundtrip
         [OF n a,
          where cfg' = "\<lparr>factory_address = Some ''0x00000000000000000000000000000000000000ff''\<rparr>"
            and c = None
            and f = "Some (connect ''0x6c0ec05Ad55C8B8427119ce50b6087E7B0C9c23e'')"]
  obtain restored where
    "TwoOwnerAccountAPI_new \<lparr>factory_address = Some ''0x00000000000000000000000000000000000000ff''\<rparr>
           demo_env_later
           \<lparr>params_context = None,
            deserializeState =
              Some (serialize (restored_this\<lparr>accountContract := None,
                                             factory := Some (connect ''0x6c0ec05Ad55C8B8427119ce50b6087E7B0C9c23e'')\<rparr>))\<rparr>
         = Inr restored"
    and "address (ownerOne restored) = address (ownerOne restored_this)"
    and "ownerTwo restored = ownerTwo restored_this"
    by blast
  with n a v show ?thesis
    by auto
qed

subsection \<open>Signing\<close>




text \<open>
  C10. \<open>signMessage\<close> without a request, or with a request that has no \<open>rawSigningData\<close>,
  returns the signed-message signature of \<open>ownerOne\<close> over the empty byte string.
\<close>

theorem signMessage_absent_request:
  "signMessage E this ctx None = Inr (personal_sign E (privateKey (ownerOne this)) [])
   \<and> signMessage E this ctx (Some (request\<lparr>rawSigningData := None\<rparr>))
       = Inr (personal_sign E (privateKey (ownerOne this)) [])"
  by (simp add: signMessage_def Wallet_signMessage_def toUtf8Bytes_def)

end
